theory Spec2Isabelle
  imports Complex_Main
begin

section \<open>The usage ledger: convex/usageSessions.ts\<close>

text \<open>
  The ledger is a set of Convex mutations over two tables, \<open>users\<close> and
  \<open>usageSessions\<close>. A table is a list of documents in creation order, which is the
  order in which an index range with all keys fixed is read. Document ids (\<open>_id\<close>)
  are natural numbers; JavaScript numbers are reals; \<open>Date.now()\<close> is the argument
  \<open>now\<close>, one value for the whole mutation. Only the fields the mutations read or
  write are kept.
\<close>

type_synonym users_id = nat
type_synonym usageSessions_id = nat

record user =
  user_id :: users_id
  clerkId :: string
  credits :: real
  lastActive :: int

record usageSession =
  session_id :: usageSessions_id
  userId :: users_id
  creditsUsed :: real
  languageFrom :: string
  languageTo :: string
  startedAt :: int
  endedAt :: "int option"
  isActive :: bool

record db =
  users :: "user list"
  usageSessions :: "usageSession list"

text \<open>The errors the mutations throw, and the message each one carries.\<close>

datatype error =
    UserNotFound
  | InsufficientCredits
  | SessionNotFound
  | NoActiveSession
  | InsufficientCreditsSessionEnded

fun message :: "error \<Rightarrow> string" where
  "message UserNotFound = ''User not found''"
| "message InsufficientCredits = ''Insufficient credits''"
| "message SessionNotFound = ''Session not found''"
| "message NoActiveSession = ''No active session found''"
| "message InsufficientCreditsSessionEnded = ''Insufficient credits - session ended''"

subsection \<open>Database primitives\<close>

text \<open>\<open>ctx.db.query("users").withIndex("by_clerk_id", q => q.eq("clerkId", c)).first()\<close>\<close>

definition user_by_clerk_id :: "string \<Rightarrow> db \<Rightarrow> user option" where
  "user_by_clerk_id c d = find (\<lambda>u. clerkId u = c) (users d)"

text \<open>
  \<open>ctx.db.query("usageSessions").withIndex("by_active",
     q => q.eq("userId", uid).eq("isActive", true))\<close>, read with \<open>.collect()\<close> and
  with \<open>.first()\<close>.
\<close>

definition by_active :: "users_id \<Rightarrow> db \<Rightarrow> usageSession list" where
  "by_active uid d = filter (\<lambda>s. userId s = uid \<and> isActive s) (usageSessions d)"

definition first_active :: "users_id \<Rightarrow> db \<Rightarrow> usageSession option" where
  "first_active uid d = find (\<lambda>s. userId s = uid \<and> isActive s) (usageSessions d)"

text \<open>\<open>ctx.db.get(id)\<close> on the \<open>usageSessions\<close> table.\<close>

definition get_session :: "usageSessions_id \<Rightarrow> db \<Rightarrow> usageSession option" where
  "get_session i d = find (\<lambda>s. session_id s = i) (usageSessions d)"

text \<open>
  \<open>ctx.db.patch(id, fields)\<close>: the document with that id gets the fields, every
  other document stays. The mutations only patch ids they have just read from the
  table, so the id exists.
\<close>

definition patch_session ::
  "usageSessions_id \<Rightarrow> (usageSession \<Rightarrow> usageSession) \<Rightarrow> db \<Rightarrow> db" where
  "patch_session i f d =
     d\<lparr>usageSessions := map (\<lambda>s. if session_id s = i then f s else s) (usageSessions d)\<rparr>"

definition patch_user :: "users_id \<Rightarrow> (user \<Rightarrow> user) \<Rightarrow> db \<Rightarrow> db" where
  "patch_user i f d =
     d\<lparr>users := map (\<lambda>u. if user_id u = i then f u else u) (users d)\<rparr>"

text \<open>
  \<open>ctx.db.insert("usageSessions", doc)\<close>: the database picks an id no document of
  the table has, appends the document and returns the id. The document handed to
  \<open>insert\<close> has no \<open>_id\<close> yet: whatever its \<open>session_id\<close> field holds is
  overwritten.
\<close>

definition fresh_id :: "nat list \<Rightarrow> nat" where
  "fresh_id ids = Suc (fold max ids 0)"

definition insert_session :: "usageSession \<Rightarrow> db \<Rightarrow> usageSessions_id \<times> db" where
  "insert_session doc d =
     (let i = fresh_id (map session_id (usageSessions d))
      in (i, d\<lparr>usageSessions := usageSessions d @ [doc\<lparr>session_id := i\<rparr>]\<rparr>))"

text \<open>The patch both \<open>startSession\<close>, \<open>endSession\<close> and the credit check apply.\<close>

definition mark_ended :: "int \<Rightarrow> usageSession \<Rightarrow> usageSession" where
  "mark_ended now s = s\<lparr>isActive := False, endedAt := Some now\<rparr>"

subsection \<open>The mutations\<close>

text \<open>
  Each exported function is \<open>mutation({args, handler})\<close>. A handler, run on a
  database, gives the database as it has written it when it returns or throws, and
  either the error thrown (\<open>Inl\<close>) or the value returned (\<open>Inr\<close>). \<open>mutation\<close>
  comes from Convex's generated server module, which is not among the sources: it
  runs the handler as one transaction, so the writes of a handler that returns are
  kept and the writes of a handler that throws are discarded.
\<close>

definition mutation :: "(db \<Rightarrow> db \<times> (error + 'a)) \<Rightarrow> db \<Rightarrow> db \<times> (error + 'a)" where
  "mutation handler d =
     (case handler d of
        (d', Inl e) \<Rightarrow> (d, Inl e)
      | (d', Inr v) \<Rightarrow> (d', Inr v))"

record startSession_args =
  arg_clerkId :: string
  arg_languageFrom :: string
  arg_languageTo :: string

definition startSession_handler ::
  "int \<Rightarrow> startSession_args \<Rightarrow> db \<Rightarrow> db \<times> (error + usageSessions_id)" where
  "startSession_handler now args d =
     (case user_by_clerk_id (arg_clerkId args) d of
        None \<Rightarrow> (d, Inl UserNotFound)
      | Some user \<Rightarrow>
          if credits user \<le> 0 then (d, Inl InsufficientCredits)
          else
            let activeSessions = by_active (user_id user) d;
                d1 = fold (\<lambda>session. patch_session (session_id session) (mark_ended now))
                       activeSessions d;
                (sessionId, d2) =
                   insert_session
                     \<lparr>session_id = 0, userId = user_id user, creditsUsed = 0,
                      languageFrom = arg_languageFrom args, languageTo = arg_languageTo args,
                      startedAt = now, endedAt = None, isActive = True\<rparr> d1
            in (d2, Inr sessionId))"

definition startSession ::
  "int \<Rightarrow> startSession_args \<Rightarrow> db \<Rightarrow> db \<times> (error + usageSessions_id)" where
  "startSession now args d = mutation (startSession_handler now args) d"

text \<open>
  \<open>endSession\<close> returns nothing (\<open>None\<close>) for a session that has already ended and
  the final details for one it ends.
\<close>

record session_details =
  final_creditsUsed :: real
  duration :: int

definition endSession_handler ::
  "int \<Rightarrow> usageSessions_id \<Rightarrow> db \<Rightarrow> db \<times> (error + session_details option)" where
  "endSession_handler now sessionId d =
     (case get_session sessionId d of
        None \<Rightarrow> (d, Inl SessionNotFound)
      | Some session \<Rightarrow>
          if \<not> isActive session then (d, Inr None)
          else (patch_session sessionId (mark_ended now) d,
                Inr (Some \<lparr>final_creditsUsed = creditsUsed session,
                           duration = now - startedAt session\<rparr>)))"

definition endSession ::
  "int \<Rightarrow> usageSessions_id \<Rightarrow> db \<Rightarrow> db \<times> (error + session_details option)" where
  "endSession now sessionId d = mutation (endSession_handler now sessionId) d"

record increment_result =
  creditsRemaining :: real
  r_sessionCreditsUsed :: real

definition incrementSessionCredits_handler ::
  "int \<Rightarrow> string \<Rightarrow> db \<Rightarrow> db \<times> (error + increment_result)" where
  "incrementSessionCredits_handler now clerk d =
     (case user_by_clerk_id clerk d of
        None \<Rightarrow> (d, Inl UserNotFound)
      | Some user \<Rightarrow>
          (case first_active (user_id user) d of
             None \<Rightarrow> (d, Inl NoActiveSession)
           | Some activeSession \<Rightarrow>
               if credits user \<le> 0
               then (patch_session (session_id activeSession) (mark_ended now) d,
                     Inl InsufficientCreditsSessionEnded)
               else
                 let d1 = patch_user (user_id user)
                            (\<lambda>u. u\<lparr>credits := credits user - 1, lastActive := now\<rparr>) d;
                     d2 = patch_session (session_id activeSession)
                            (\<lambda>s. s\<lparr>creditsUsed := creditsUsed activeSession + 1\<rparr>) d1
                 in (d2, Inr \<lparr>creditsRemaining = credits user - 1,
                              r_sessionCreditsUsed = creditsUsed activeSession + 1\<rparr>)))"

definition incrementSessionCredits ::
  "int \<Rightarrow> string \<Rightarrow> db \<Rightarrow> db \<times> (error + increment_result)" where
  "incrementSessionCredits now clerk d = mutation (incrementSessionCredits_handler now clerk) d"

text \<open>Two small databases used to run the mutations on concrete input.\<close>

definition alice :: user where
  "alice = \<lparr>user_id = 1, clerkId = ''clerk_alice'', credits = 5, lastActive = 0\<rparr>"

definition bob :: user where
  "bob = \<lparr>user_id = 2, clerkId = ''clerk_bob'', credits = 0, lastActive = 0\<rparr>"

definition session_a :: usageSession where
  "session_a = \<lparr>session_id = 1, userId = 1, creditsUsed = 2, languageFrom = ''en'',
                languageTo = ''sv'', startedAt = 100, endedAt = None, isActive = True\<rparr>"

definition session_b :: usageSession where
  "session_b = \<lparr>session_id = 2, userId = 2, creditsUsed = 4, languageFrom = ''de'',
                languageTo = ''fr'', startedAt = 200, endedAt = None, isActive = True\<rparr>"

definition session_old :: usageSession where
  "session_old = \<lparr>session_id = 3, userId = 1, creditsUsed = 7, languageFrom = ''en'',
                  languageTo = ''es'', startedAt = 10, endedAt = Some 50, isActive = False\<rparr>"

definition db0 :: db where
  "db0 = \<lparr>users = [alice, bob], usageSessions = [session_a, session_b, session_old]\<rparr>"

section \<open>The usage tracking hook: useTrackUsage\<close>

text \<open>
  The repository holds two versions of the hook. The one in \<open>part_002\<close> charges one
  credit a minute through \<open>incrementSessionCredits\<close>; the one in \<open>part_003\<close> charges
  three seconds at a time through \<open>updateFractionalCredits\<close>, a mutation that is not
  among the sources. The hook reaches the ledger only by calling mutations, so each
  function of the model takes the mutation's response as an argument and appends the
  call it makes to \<open>calls\<close>.

  \<open>sessionId\<close>, \<open>isTracking\<close> and \<open>sessionCreditsUsed\<close> are \<open>useState\<close> cells:
  \<open>setSessionId(x)\<close> stores \<open>x\<close> for the next run of the hook body, while
  \<open>const [sessionId, setSessionId] = useState(null)\<close> binds \<open>sessionId\<close> once for
  the run that created a given \<open>startTracking\<close> and \<open>stopTracking\<close>. A function
  that reads \<open>sessionId\<close> therefore takes the value bound in its own run as the
  argument \<open>seen\<close>. \<open>intervalRef\<close> is a \<open>useRef\<close> object, shared by all runs, and is
  read from the state. The callback given to \<open>setInterval\<close> calls the
  \<open>stopTracking\<close> of the run in which \<open>startTracking\<close> was called, so the timer
  keeps that run's \<open>sessionId\<close> (\<open>cl_sessionId\<close>) beside the user id it sends.
\<close>

datatype ledger_call =
    StartSessionCall string string string
  | IncrementSessionCreditsCall string
  | UpdateFractionalCreditsCall string real
  | EndSessionCall usageSessions_id

record closure =
  cl_clerkId :: string
  cl_sessionId :: "usageSessions_id option"

record tracker =
  sessionId :: "usageSessions_id option"
  isTracking :: bool
  sessionCreditsUsed :: real
  intervalRef :: "nat option"
  timers :: "(nat \<times> closure) list"
  calls :: "ledger_call list"

record tracker3 = tracker +
  sessionSecondsUsed :: real
  startTimeRef :: "int option"

datatype 'e track_error = UserNotAuthenticated | Rethrown 'e

text \<open>\<open>setInterval\<close> returns a handle no running timer has; handles are positive.\<close>

definition setInterval :: "closure \<Rightarrow> (nat \<times> closure) list \<Rightarrow> nat \<times> (nat \<times> closure) list" where
  "setInterval cb ts = (let h = fresh_id (map fst ts) in (h, ts @ [(h, cb)]))"

definition clearInterval :: "nat \<Rightarrow> (nat \<times> closure) list \<Rightarrow> (nat \<times> closure) list" where
  "clearInterval h ts = filter (\<lambda>(i, cb). i \<noteq> h) ts"

subsection \<open>part_002: one credit a minute\<close>

text \<open>
  \<open>stopTracking\<close>: clear the interval if one is stored, call \<open>endSession\<close> if the
  \<open>sessionId\<close> of this run is set (the call's outcome is only logged, a failure is
  caught), then reset the state cells.
\<close>

definition stopTracking_002 :: "usageSessions_id option \<Rightarrow> tracker \<Rightarrow> tracker" where
  "stopTracking_002 seen t =
     (let t1 = (case intervalRef t of
                  None \<Rightarrow> t
                | Some h \<Rightarrow> t\<lparr>intervalRef := None, timers := clearInterval h (timers t)\<rparr>);
          t2 = (case seen of
                  None \<Rightarrow> t1
                | Some sid \<Rightarrow> t1\<lparr>calls := calls t1 @ [EndSessionCall sid]\<rparr>)
      in t2\<lparr>sessionId := None, isTracking := False, sessionCreditsUsed := 0\<rparr>)"

text \<open>
  \<open>startTracking\<close>, called in a run of the hook whose \<open>sessionId\<close> is \<open>seen\<close>, for
  the signed-in user \<open>clerkUser\<close> (\<open>None\<close> when there is none), with the response
  \<open>resp\<close> of \<open>startSession\<close>.
\<close>

definition startTracking_002 ::
  "usageSessions_id option \<Rightarrow> string option \<Rightarrow> string \<Rightarrow> string \<Rightarrow> ('e + usageSessions_id)
     \<Rightarrow> tracker \<Rightarrow> tracker \<times> ('e track_error + usageSessions_id)" where
  "startTracking_002 seen clerkUser lfrom lto resp t =
     (case clerkUser of
        None \<Rightarrow> (t, Inl UserNotAuthenticated)
      | Some cid \<Rightarrow>
          if cid = [] then (t, Inl UserNotAuthenticated)
          else
            let t1 = t\<lparr>calls := calls t @ [StartSessionCall cid lfrom lto]\<rparr>
            in (case resp of
                  Inl e \<Rightarrow> (t1, Inl (Rethrown e))
                | Inr newSessionId \<Rightarrow>
                    let (h, ts) = setInterval \<lparr>cl_clerkId = cid, cl_sessionId = seen\<rparr> (timers t1)
                    in (t1\<lparr>sessionId := Some newSessionId, isTracking := True,
                            sessionCreditsUsed := 0, intervalRef := Some h, timers := ts\<rparr>,
                        Inr newSessionId)))"

text \<open>
  The interval callback, run when timer \<open>h\<close> fires, with the response \<open>resp\<close> of
  \<open>incrementSessionCredits\<close>. A cleared timer does not fire.
\<close>

definition intervalCallback_002 ::
  "nat \<Rightarrow> ('e + increment_result) \<Rightarrow> tracker \<Rightarrow> tracker" where
  "intervalCallback_002 h resp t =
     (case map_of (timers t) h of
        None \<Rightarrow> t
      | Some cb \<Rightarrow>
          let t1 = t\<lparr>calls := calls t @ [IncrementSessionCreditsCall (cl_clerkId cb)]\<rparr>
          in (case resp of
                Inl e \<Rightarrow> stopTracking_002 (cl_sessionId cb) t1
              | Inr result \<Rightarrow>
                  let t2 = t1\<lparr>sessionCreditsUsed := r_sessionCreditsUsed result\<rparr>
                  in if creditsRemaining result = 0
                     then stopTracking_002 (cl_sessionId cb) t2
                     else t2))"

subsection \<open>part_003: three seconds at a time\<close>

record fractional_result = increment_result +
  r_secondsUsed :: real

definition stopTracking_003 :: "usageSessions_id option \<Rightarrow> tracker3 \<Rightarrow> tracker3" where
  "stopTracking_003 seen t =
     (let t1 = (case intervalRef t of
                  None \<Rightarrow> t
                | Some h \<Rightarrow> t\<lparr>intervalRef := None, timers := clearInterval h (timers t)\<rparr>);
          t2 = (case seen of
                  None \<Rightarrow> t1
                | Some sid \<Rightarrow> t1\<lparr>calls := calls t1 @ [EndSessionCall sid]\<rparr>)
      in t2\<lparr>sessionId := None, isTracking := False, sessionCreditsUsed := 0,
            sessionSecondsUsed := 0, startTimeRef := None\<rparr>)"

definition startTracking_003 ::
  "usageSessions_id option \<Rightarrow> string option \<Rightarrow> string \<Rightarrow> string \<Rightarrow> int
     \<Rightarrow> ('e + usageSessions_id) \<Rightarrow> tracker3 \<Rightarrow> tracker3 \<times> ('e track_error + usageSessions_id)" where
  "startTracking_003 seen clerkUser lfrom lto now resp t =
     (case clerkUser of
        None \<Rightarrow> (t, Inl UserNotAuthenticated)
      | Some cid \<Rightarrow>
          if cid = [] then (t, Inl UserNotAuthenticated)
          else
            let t1 = t\<lparr>calls := calls t @ [StartSessionCall cid lfrom lto]\<rparr>
            in (case resp of
                  Inl e \<Rightarrow> (t1, Inl (Rethrown e))
                | Inr newSessionId \<Rightarrow>
                    let (h, ts) = setInterval \<lparr>cl_clerkId = cid, cl_sessionId = seen\<rparr> (timers t1)
                    in (t1\<lparr>sessionId := Some newSessionId, isTracking := True,
                            sessionCreditsUsed := 5 / 100, intervalRef := Some h, timers := ts,
                            sessionSecondsUsed := 3, startTimeRef := Some now\<rparr>,
                        Inr newSessionId)))"

text \<open>
  The callback computes \<open>actualSeconds\<close> from the clock and the start time and then
  sends the constant \<open>secondsToAdd = 3\<close>.
\<close>

definition intervalCallback_003 ::
  "nat \<Rightarrow> int \<Rightarrow> ('e + fractional_result) \<Rightarrow> tracker3 \<Rightarrow> tracker3" where
  "intervalCallback_003 h now resp t =
     (case map_of (timers t) h of
        None \<Rightarrow> t
      | Some cb \<Rightarrow>
          let actualSeconds =
                (now - (case startTimeRef t of None \<Rightarrow> now
                        | Some st \<Rightarrow> if st = 0 then now else st)) div 1000;
              secondsToAdd = 3;
              t1 = t\<lparr>calls := calls t @ [UpdateFractionalCreditsCall (cl_clerkId cb) secondsToAdd]\<rparr>
          in (case resp of
                Inl e \<Rightarrow> stopTracking_003 (cl_sessionId cb) t1
              | Inr result \<Rightarrow>
                  let t2 = t1\<lparr>sessionCreditsUsed := r_sessionCreditsUsed result,
                              sessionSecondsUsed := r_secondsUsed result\<rparr>
                  in if creditsRemaining result \<le> 5 / 100
                     then stopTracking_003 (cl_sessionId cb) t2
                     else t2))"

text \<open>The hook as first mounted: every \<open>useState\<close> and \<open>useRef\<close> at its initial value.\<close>

definition tracker_init :: tracker where
  "tracker_init = \<lparr>sessionId = None, isTracking = False, sessionCreditsUsed = 0,
                    intervalRef = None, timers = [], calls = []\<rparr>"

definition tracker3_init :: tracker3 where
  "tracker3_init = \<lparr>sessionId = None, isTracking = False, sessionCreditsUsed = 0,
                     intervalRef = None, timers = [], calls = [],
                     sessionSecondsUsed = 0, startTimeRef = None\<rparr>"

section \<open>The audio visualizer: src/components/AudioVisualizer.tsx\<close>

text \<open>
  The component is the only code of the repository that opens the microphone. It
  prepares one recording, with metering enabled, polls its level every 100 ms and
  animates thirteen dots from the level.
\<close>

subsection \<open>The recording options\<close>

datatype android_output_format = AAC_ADTS
datatype android_audio_encoder = AndroidAAC
datatype ios_output_format = MPEG4AAC
datatype ios_audio_quality = HIGH

record android_options =
  android_extension :: string
  android_outputFormat :: android_output_format
  android_audioEncoder :: android_audio_encoder
  android_sampleRate :: nat
  android_numberOfChannels :: nat
  android_bitRate :: nat

record ios_options =
  ios_extension :: string
  ios_outputFormat :: ios_output_format
  ios_audioQuality :: ios_audio_quality
  ios_sampleRate :: nat
  ios_numberOfChannels :: nat
  ios_bitRate :: nat

record web_options =
  web_mimeType :: string
  web_bitsPerSecond :: nat

record recording_options =
  android :: android_options
  ios :: ios_options
  web :: web_options
  isMeteringEnabled :: bool

text \<open>The object literal passed to \<open>prepareToRecordAsync\<close> in \<open>startMonitoring\<close>.\<close>

definition recordingOptions :: recording_options where
  "recordingOptions =
     \<lparr>android = \<lparr>android_extension = ''.aac'', android_outputFormat = AAC_ADTS,
                  android_audioEncoder = AndroidAAC, android_sampleRate = 44100,
                  android_numberOfChannels = 2, android_bitRate = 128000\<rparr>,
      ios = \<lparr>ios_extension = ''.m4a'', ios_outputFormat = MPEG4AAC,
              ios_audioQuality = HIGH, ios_sampleRate = 44100,
              ios_numberOfChannels = 2, ios_bitRate = 128000\<rparr>,
      web = \<lparr>web_mimeType = ''audio/webm'', web_bitsPerSecond = 128000\<rparr>,
      isMeteringEnabled = True\<rparr>"

subsection \<open>The component's state\<close>

text \<open>
  An animation started on a dot, as the \<open>Animated\<close> calls build it: \<open>Timing v d\<close>
  moves the dot's scale to \<open>v\<close> in \<open>d\<close> ms (\<open>useNativeDriver\<close>, true in every
  call, is left out). A dot holds the animation last started on it, \<open>Rest\<close> before
  the first one.
\<close>

datatype animation =
    Rest
  | Timing real real
  | Delay real
  | Sequence "animation list"
  | Parallel "animation list"

text \<open>
  \<open>recording\<close> is a \<open>useState\<close> cell holding the recording object (here the options
  it was prepared with); \<open>monitorRef\<close> is \<open>intervalRef\<close>, the handle of the polling
  timer; \<open>monitors\<close> are the polling timers that run.
\<close>

record visualizer =
  recording :: "recording_options option"
  monitorRef :: "nat option"
  monitors :: "nat list"
  dotAnimations :: "animation list"

definition NUM_DOTS :: nat where
  "NUM_DOTS = 13"

definition SPEECH_THRESHOLD :: real where
  "SPEECH_THRESHOLD = - 40"

definition visualizer_init :: visualizer where
  "visualizer_init = \<lparr>recording = None, monitorRef = None, monitors = [],
                       dotAnimations = replicate NUM_DOTS Rest\<rparr>"

subsection \<open>startMonitoring\<close>

text \<open>
  Everything that can fail in \<open>startMonitoring\<close> happens before its first write, inside
  one \<open>try\<close> whose \<open>catch\<close> only logs. The environment says what the platform
  answers: whether the permission request returns, the status it returns, and
  whether setting the audio mode, preparing and starting the recording succeed.
\<close>

record start_env =
  request_ok :: bool
  permission_status :: string
  audio_mode_ok :: bool
  prepare_ok :: bool
  start_ok :: bool

definition startMonitoring :: "start_env \<Rightarrow> visualizer \<Rightarrow> visualizer" where
  "startMonitoring env s =
     (if \<not> request_ok env then s
      else if permission_status env \<noteq> ''granted'' then s
      else if \<not> audio_mode_ok env then s
      else if \<not> prepare_ok env then s
      else if \<not> start_ok env then s
      else
        let newRecording = recordingOptions;
            h = fresh_id (monitors s)
        in s\<lparr>recording := Some newRecording, monitorRef := Some h,
              monitors := monitors s @ [h]\<rparr>)"

subsection \<open>stopMonitoring\<close>

datatype av_error = StopAndUnloadFailed

text \<open>\<open>recording.stopAndUnloadAsync()\<close> succeeds or throws, as the platform decides.\<close>

definition stopAndUnloadAsync :: "bool \<Rightarrow> recording_options \<Rightarrow> av_error + unit" where
  "stopAndUnloadAsync ok r = (if ok then Inr () else Inl StopAndUnloadFailed)"

text \<open>
  \<open>stopMonitoring\<close>, in a run of the component whose \<open>recording\<close> is \<open>seen\<close>. The
  result is \<open>Inl\<close> if the function throws.
\<close>

definition stopMonitoring ::
  "recording_options option \<Rightarrow> bool \<Rightarrow> visualizer \<Rightarrow> av_error + visualizer" where
  "stopMonitoring seen unload_ok s =
     (let s1 = (case monitorRef s of
                  None \<Rightarrow> s
                | Some h \<Rightarrow> s\<lparr>monitorRef := None, monitors := filter (\<lambda>i. i \<noteq> h) (monitors s)\<rparr>);
          s2 = (case seen of
                  None \<Rightarrow> s1
                | Some r \<Rightarrow>
                    (case stopAndUnloadAsync unload_ok r of
                       Inr u \<Rightarrow> s1\<lparr>recording := None\<rparr>
                     | Inl e \<Rightarrow> s1))
      in Inr (s2\<lparr>dotAnimations := map (\<lambda>anim. Timing 1 300) (dotAnimations s2)\<rparr>))"

subsection \<open>animateDots\<close>

text \<open>JavaScript's \<open>%\<close> on numbers: the remainder has the sign of the dividend.\<close>

definition js_rem :: "real \<Rightarrow> real \<Rightarrow> real" where
  "js_rem x m = x - m * (if 0 \<le> x / m then of_int \<lfloor>x / m\<rfloor> else of_int \<lceil>x / m\<rceil>)"

definition normalizedLevel :: "real \<Rightarrow> real" where
  "normalizedLevel level = max 0 (min 1 ((level + 160) / 160))"

definition isSpeaking :: "real \<Rightarrow> bool" where
  "isSpeaking level = (level > SPEECH_THRESHOLD)"

definition speakingAnimation :: "real \<Rightarrow> nat \<Rightarrow> animation" where
  "speakingAnimation level index =
     (let centerIndex = NUM_DOTS div 2;
          distance = \<bar>int index - int centerIndex\<bar>;
          delay = real_of_int distance * 30;
          amplitude = normalizedLevel level * (1 - real_of_int distance * (1 / 10))
      in Sequence [Delay delay, Parallel [Timing (1 + amplitude * 2) 100], Timing 1 200])"

definition idleAnimation :: "int \<Rightarrow> nat \<Rightarrow> animation" where
  "idleAnimation now index =
     (let phase = js_rem (real_of_int now / 1000 + real index * (2 / 10)) (pi * 2);
          scale = 1 + sin phase * (1 / 10)
      in Timing scale 100)"

definition animateDots :: "int \<Rightarrow> real \<Rightarrow> visualizer \<Rightarrow> visualizer" where
  "animateDots now level s =
     (if isSpeaking level
      then s\<lparr>dotAnimations := map (speakingAnimation level) [0..<length (dotAnimations s)]\<rparr>
      else s\<lparr>dotAnimations := map (idleAnimation now) [0..<length (dotAnimations s)]\<rparr>)"

section \<open>Concrete runs\<close>

text \<open>
  Inputs on which the functions above are run. \<open>db0_restarted\<close> is \<open>db0\<close> after
  Alice starts a new session at time 1000. The other runs are one session of each
  version of the hook, for a user who holds \<open>c\<close> credits and whose hook has just been
  mounted, so that \<open>sessionId\<close> is still \<open>null\<close> in the run that calls
  \<open>startTracking\<close>: \<open>tracking_002\<close> is the hook of \<open>part_002\<close> once the ledger has
  started the session, \<open>heartbeat_002\<close> the ledger's answer to the first heartbeat
  and \<open>after_heartbeat_002\<close> the hook after it; \<open>after_heartbeat_003\<close> is the hook
  of \<open>part_003\<close> after a first heartbeat at time \<open>tick\<close> answered with the balance
  \<open>remaining\<close>.
\<close>

definition alice_args :: startSession_args where
  "alice_args = \<lparr>arg_clerkId = ''clerk_alice'', arg_languageFrom = ''en'', arg_languageTo = ''fi''\<rparr>"

definition db0_restarted :: db where
  "db0_restarted =
     \<lparr>users = [alice, bob],
      usageSessions =
        [session_a\<lparr>isActive := False, endedAt := Some 1000\<rparr>, session_b, session_old,
         \<lparr>session_id = 4, userId = 1, creditsUsed = 0, languageFrom = ''en'',
          languageTo = ''fi'', startedAt = 1000, endedAt = None, isActive = True\<rparr>]\<rparr>"

definition ledger_of :: "real \<Rightarrow> db" where
  "ledger_of c = \<lparr>users = [\<lparr>user_id = 1, clerkId = ''clerk_dave'', credits = c, lastActive = 0\<rparr>],
                  usageSessions = []\<rparr>"

definition ledger_started :: "real \<Rightarrow> db \<times> (error + usageSessions_id)" where
  "ledger_started c =
     startSession 1000
       \<lparr>arg_clerkId = ''clerk_dave'', arg_languageFrom = ''en'', arg_languageTo = ''sv''\<rparr>
       (ledger_of c)"

definition tracking_002 :: "real \<Rightarrow> tracker" where
  "tracking_002 c =
     fst (startTracking_002 None (Some ''clerk_dave'') ''en'' ''sv'' (snd (ledger_started c))
            tracker_init)"

definition heartbeat_002 :: "real \<Rightarrow> db \<times> (error + increment_result)" where
  "heartbeat_002 c = incrementSessionCredits 61000 ''clerk_dave'' (fst (ledger_started c))"

definition after_heartbeat_002 :: "real \<Rightarrow> tracker" where
  "after_heartbeat_002 c = intervalCallback_002 1 (snd (heartbeat_002 c)) (tracking_002 c)"

definition tracking_003 :: "usageSessions_id \<Rightarrow> tracker3" where
  "tracking_003 sid =
     fst (startTracking_003 None (Some ''clerk_dave'') ''en'' ''sv'' 1000
            (Inr sid :: error + usageSessions_id) tracker3_init)"

definition after_heartbeat_003 :: "usageSessions_id \<Rightarrow> int \<Rightarrow> real \<Rightarrow> tracker3" where
  "after_heartbeat_003 sid tick remaining =
     intervalCallback_003 1 tick
       (Inr \<lparr>creditsRemaining = remaining, r_sessionCreditsUsed = 1 / 10, r_secondsUsed = 6\<rparr>
          :: error + fractional_result)
       (tracking_003 sid)"

text \<open>The visualizer after a start in which the platform grants everything.\<close>

definition granted_env :: start_env where
  "granted_env = \<lparr>request_ok = True, permission_status = ''granted'', audio_mode_ok = True,
                   prepare_ok = True, start_ok = True\<rparr>"

definition monitoring :: visualizer where
  "monitoring = startMonitoring granted_env visualizer_init"

section \<open>Properties of the ledger\<close>

text \<open>
  What each mutation leaves and answers. \<open>startSession\<close> and \<open>endSession\<close> throw
  before their first write, so the transaction changes nothing for them;
  \<open>incrementSessionCredits\<close> throws its last error after a write, which is then
  discarded.
\<close>

lemma startSession_unfold:
  "startSession now args d =
     (case user_by_clerk_id (arg_clerkId args) d of
        None \<Rightarrow> (d, Inl UserNotFound)
      | Some user \<Rightarrow>
          if credits user \<le> 0 then (d, Inl InsufficientCredits)
          else
            let activeSessions = by_active (user_id user) d;
                d1 = fold (\<lambda>session. patch_session (session_id session) (mark_ended now))
                       activeSessions d;
                (sessionId, d2) =
                   insert_session
                     \<lparr>session_id = 0, userId = user_id user, creditsUsed = 0,
                      languageFrom = arg_languageFrom args, languageTo = arg_languageTo args,
                      startedAt = now, endedAt = None, isActive = True\<rparr> d1
            in (d2, Inr sessionId))"
  by (simp add: startSession_def mutation_def startSession_handler_def insert_session_def
        Let_def split: option.splits)

lemma endSession_unfold:
  "endSession now sid d =
     (case get_session sid d of
        None \<Rightarrow> (d, Inl SessionNotFound)
      | Some session \<Rightarrow>
          if \<not> isActive session then (d, Inr None)
          else (patch_session sid (mark_ended now) d,
                Inr (Some \<lparr>final_creditsUsed = creditsUsed session,
                           duration = now - startedAt session\<rparr>)))"
  by (simp add: endSession_def mutation_def endSession_handler_def split: option.splits)

lemma incrementSessionCredits_unfold:
  "incrementSessionCredits now clerk d =
     (case user_by_clerk_id clerk d of
        None \<Rightarrow> (d, Inl UserNotFound)
      | Some user \<Rightarrow>
          (case first_active (user_id user) d of
             None \<Rightarrow> (d, Inl NoActiveSession)
           | Some activeSession \<Rightarrow>
               if credits user \<le> 0
               then (d, Inl InsufficientCreditsSessionEnded)
               else
                 let d1 = patch_user (user_id user)
                            (\<lambda>u. u\<lparr>credits := credits user - 1, lastActive := now\<rparr>) d;
                     d2 = patch_session (session_id activeSession)
                            (\<lambda>s. s\<lparr>creditsUsed := creditsUsed activeSession + 1\<rparr>) d1
                 in (d2, Inr \<lparr>creditsRemaining = credits user - 1,
                              r_sessionCreditsUsed = creditsUsed activeSession + 1\<rparr>)))"
  by (simp add: incrementSessionCredits_def mutation_def incrementSessionCredits_handler_def
        Let_def split: option.splits)

lemma mark_ended_simps:
  "session_id (mark_ended now s) = session_id s"
  "userId (mark_ended now s) = userId s"
  "creditsUsed (mark_ended now s) = creditsUsed s"
  "isActive (mark_ended now s) = False"
  "endedAt (mark_ended now s) = Some now"
  "mark_ended now (mark_ended now s) = mark_ended now s"
  by (simp_all add: mark_ended_def)

lemma fold_patch_sessions:
  "usageSessions (fold (\<lambda>x. patch_session (session_id x) (mark_ended now)) xs d) =
     map (\<lambda>s. if session_id s \<in> session_id ` set xs then mark_ended now s else s)
       (usageSessions d)"
proof (induction xs arbitrary: d)
  case Nil
  then show ?case by simp
next
  case (Cons x xs)
  have "usageSessions (fold (\<lambda>x. patch_session (session_id x) (mark_ended now)) (x # xs) d) =
        map (\<lambda>s. if session_id s \<in> session_id ` set xs then mark_ended now s else s)
          (usageSessions (patch_session (session_id x) (mark_ended now) d))"
    using Cons.IH [of "patch_session (session_id x) (mark_ended now) d"] by simp
  also have "\<dots> = map (\<lambda>s. if session_id s \<in> session_id ` set (x # xs)
                              then mark_ended now s else s) (usageSessions d)"
    by (auto simp: patch_session_def mark_ended_simps)
  finally show ?case .
qed

lemma fold_patch_users:
  "users (fold (\<lambda>x. patch_session (session_id x) f) xs d) = users d"
  by (induction xs arbitrary: d) (simp_all add: patch_session_def)

lemma filter_map_shrinks:
  "(\<And>x. P (g x) \<Longrightarrow> P x) \<Longrightarrow> length (filter P (map g xs)) \<le> length (filter P xs)"
  by (induction xs) (auto simp: le_SucI)

lemma startSession_success:
  assumes "startSession now args d = (d', Inr sid)"
  shows "\<exists>u. user_by_clerk_id (arg_clerkId args) d = Some u \<and> 0 < credits u
           \<and> users d' = users d
           \<and> sid = fresh_id (map session_id (usageSessions d))
           \<and> usageSessions d' =
               map (\<lambda>s. if session_id s \<in> session_id ` set (by_active (user_id u) d)
                        then mark_ended now s else s) (usageSessions d)
               @ [\<lparr>session_id = sid, userId = user_id u, creditsUsed = 0,
                   languageFrom = arg_languageFrom args, languageTo = arg_languageTo args,
                   startedAt = now, endedAt = None, isActive = True\<rparr>]"
proof (cases "user_by_clerk_id (arg_clerkId args) d")
  case None
  with assms show ?thesis by (simp add: startSession_unfold)
next
  case (Some u)
  with assms have pos: "0 < credits u"
    by (auto simp: startSession_unfold split: if_splits)
  let ?d1 = "fold (\<lambda>x. patch_session (session_id x) (mark_ended now)) (by_active (user_id u) d) d"
  have ids: "session_id \<circ> (\<lambda>s. if session_id s \<in> session_id ` set (by_active (user_id u) d)
                               then mark_ended now s else s) = session_id"
    by (auto simp: fun_eq_iff mark_ended_simps)
  from assms Some pos have
    "d' = ?d1\<lparr>usageSessions := usageSessions ?d1 @
            [\<lparr>session_id = fresh_id (map session_id (usageSessions ?d1)), userId = user_id u,
              creditsUsed = 0, languageFrom = arg_languageFrom args,
              languageTo = arg_languageTo args, startedAt = now, endedAt = None,
              isActive = True\<rparr>]\<rparr>"
    and "sid = fresh_id (map session_id (usageSessions ?d1))"
    by (auto simp: startSession_unfold insert_session_def Let_def)
  with Some pos show ?thesis
    by (simp add: fold_patch_sessions fold_patch_users ids)
qed

lemma fold_max_ge:
  fixes a :: nat
  shows "a \<le> fold max xs a \<and> (\<forall>x \<in> set xs. x \<le> fold max xs a)"
proof (induction xs arbitrary: a)
  case Nil
  show ?case by simp
next
  case (Cons y ys)
  from Cons.IH [of "max y a"] have
    1: "max y a \<le> fold max ys (max y a)" and
    2: "\<forall>x \<in> set ys. x \<le> fold max ys (max y a)"
    by simp_all
  from 1 have "a \<le> fold max ys (max y a)" and "y \<le> fold max ys (max y a)"
    by simp_all
  with 2 show ?case by simp
qed

lemma fresh_id_fresh: "fresh_id xs \<notin> set xs"
  using fold_max_ge [of 0 xs] by (auto simp: fresh_id_def)

text \<open>The id a successful \<open>startSession\<close> returns belongs to no session that existed.\<close>

lemma startSession_new_id:
  "startSession now args d = (d', Inr sid) \<Longrightarrow> sid \<notin> session_id ` set (usageSessions d)"
  using startSession_success [of now args d d' sid] fresh_id_fresh [of "map session_id (usageSessions d)"]
  by auto

lemma by_active_user_after_start:
  "filter (\<lambda>s. userId s = uid \<and> isActive s)
     (map (\<lambda>s. if session_id s \<in> session_id ` set (by_active uid d)
               then mark_ended now s else s) (usageSessions d)) = []"
  by (auto simp: filter_empty_conv by_active_def mark_ended_simps)

lemmas db0_defs = db0_def alice_def bob_def session_a_def session_b_def session_old_def

lemma startSession_alice: "startSession 1000 alice_args db0 = (db0_restarted, Inr 4)"
  by (simp add: startSession_unfold alice_args_def db0_restarted_def db0_defs user_by_clerk_id_def
        by_active_def patch_session_def insert_session_def fresh_id_def mark_ended_def Let_def)

text \<open>
  C2. After every successful \<open>startSession\<close> the user the call is for has exactly one
  active session, the one just inserted: every session of that user that was active
  before is in the table with \<open>isActive = false\<close> and \<open>endedAt\<close> set to the time of
  the call. For every user, if at most one session was active before the call, at
  most one is active after it.
\<close>

theorem startSession_one_active:
  assumes "startSession now args d = (d', Inr sid)"
  shows "\<exists>u. user_by_clerk_id (arg_clerkId args) d = Some u
           \<and> map session_id (by_active (user_id u) d') = [sid]
           \<and> (\<forall>s \<in> set (by_active (user_id u) d).
                 \<exists>s' \<in> set (usageSessions d').
                    session_id s' = session_id s \<and> \<not> isActive s' \<and> endedAt s' = Some now)
           \<and> (\<forall>uid. length (by_active uid d) \<le> 1 \<longrightarrow> length (by_active uid d') \<le> 1)"
proof -
  from startSession_success [OF assms] obtain u where
    u: "user_by_clerk_id (arg_clerkId args) d = Some u"
    and ss: "usageSessions d' =
               map (\<lambda>s. if session_id s \<in> session_id ` set (by_active (user_id u) d)
                        then mark_ended now s else s) (usageSessions d)
               @ [\<lparr>session_id = sid, userId = user_id u, creditsUsed = 0,
                   languageFrom = arg_languageFrom args, languageTo = arg_languageTo args,
                   startedAt = now, endedAt = None, isActive = True\<rparr>]"
    by blast
  let ?g = "\<lambda>s. if session_id s \<in> session_id ` set (by_active (user_id u) d)
                 then mark_ended now s else s"
  have one: "map session_id (by_active (user_id u) d') = [sid]"
    using by_active_user_after_start [of "user_id u" d now]
    by (simp add: by_active_def ss)
  have ended: "\<forall>s \<in> set (by_active (user_id u) d).
                 \<exists>s' \<in> set (usageSessions d').
                    session_id s' = session_id s \<and> \<not> isActive s' \<and> endedAt s' = Some now"
  proof
    fix s assume s: "s \<in> set (by_active (user_id u) d)"
    then have "s \<in> set (usageSessions d)" by (simp add: by_active_def)
    then have "?g s \<in> set (usageSessions d')" by (simp add: ss)
    moreover from s have "?g s = mark_ended now s" by auto
    ultimately show "\<exists>s' \<in> set (usageSessions d').
                    session_id s' = session_id s \<and> \<not> isActive s' \<and> endedAt s' = Some now"
      by (metis mark_ended_simps(1,4,5))
  qed
  have inv: "\<forall>uid. length (by_active uid d) \<le> 1 \<longrightarrow> length (by_active uid d') \<le> 1"
  proof (intro allI impI)
    fix uid assume le: "length (by_active uid d) \<le> 1"
    show "length (by_active uid d') \<le> 1"
    proof (cases "uid = user_id u")
      case True
      with one show ?thesis by (metis length_map length_Cons list.size(3) One_nat_def le_refl)
    next
      case False
      have "length (filter (\<lambda>s. userId s = uid \<and> isActive s) (map ?g (usageSessions d)))
              \<le> length (filter (\<lambda>s. userId s = uid \<and> isActive s) (usageSessions d))"
        by (rule filter_map_shrinks) (auto simp: mark_ended_simps split: if_splits)
      with le False show ?thesis by (simp add: by_active_def ss)
    qed
  qed
  from u one ended inv show ?thesis by (intro exI [of _ u] conjI)
qed

theorem startSession_one_active_witness:
  "startSession 1000 alice_args db0 = (db0_restarted, Inr 4)
   \<and> map session_id (by_active 1 db0) = [1]
   \<and> map session_id (by_active 1 db0_restarted) = [4]
   \<and> length (by_active 2 db0) \<le> 1 \<and> length (by_active 2 db0_restarted) \<le> 1"
proof -
  from startSession_one_active [OF startSession_alice] obtain u where
    u: "user_by_clerk_id (arg_clerkId alice_args) db0 = Some u"
    and one: "map session_id (by_active (user_id u) db0_restarted) = [4]"
    and inv: "\<forall>uid. length (by_active uid db0) \<le> 1 \<longrightarrow>
                    length (by_active uid db0_restarted) \<le> 1"
    by (elim exE conjE)
  have "user_by_clerk_id (arg_clerkId alice_args) db0 = Some alice"
    by (simp add: user_by_clerk_id_def alice_args_def db0_defs)
  with u have "u = alice" by simp
  then have "user_id u = 1" by (simp add: alice_def)
  with one have new: "map session_id (by_active 1 db0_restarted) = [4]" by simp
  have before: "map session_id (by_active 1 db0) = [1]"
    by (simp add: by_active_def db0_defs)
  have bob_before: "length (by_active 2 db0) \<le> 1"
    by (simp add: by_active_def db0_defs)
  with inv have bob_after: "length (by_active 2 db0_restarted) \<le> 1" by blast
  from startSession_alice before new bob_before bob_after show ?thesis by simp
qed



text \<open>
  With a balance of zero or less the handler patches the user's first active
  session to \<open>isActive = false\<close> with \<open>endedAt\<close> set, touches
  nothing else, and throws. The mutation throws the same error and, its transaction
  discarded, leaves the database as it found it.
\<close>

lemma incrementSessionCredits_handler_no_credits:
  assumes "user_by_clerk_id clerk d = Some u"
    and "first_active (user_id u) d = Some a"
    and "credits u \<le> 0"
  shows "incrementSessionCredits_handler now clerk d =
           (patch_session (session_id a) (mark_ended now) d, Inl InsufficientCreditsSessionEnded)"
  using assms by (simp add: incrementSessionCredits_handler_def)

lemma incrementSessionCredits_no_credits_discarded:
  assumes "user_by_clerk_id clerk d = Some u"
    and "first_active (user_id u) d = Some a"
    and "credits u \<le> 0"
  shows "incrementSessionCredits now clerk d = (d, Inl InsufficientCreditsSessionEnded)"
    and "first_active (user_id u) (fst (incrementSessionCredits now clerk d)) = Some a"
    and "isActive a"
proof -
  show r: "incrementSessionCredits now clerk d = (d, Inl InsufficientCreditsSessionEnded)"
    using assms by (simp add: incrementSessionCredits_unfold)
  show "first_active (user_id u) (fst (incrementSessionCredits now clerk d)) = Some a"
    using assms(2) by (simp add: r)
  show "isActive a"
    using assms(2) by (auto simp: first_active_def find_Some_iff)
qed

text \<open>
  C8. The claim asks that, for a user with an active session and a balance of zero
  or less, \<open>incrementSessionCredits\<close> marks that session inactive with \<open>endedAt\<close>
  set, throws \<open>Insufficient credits - session ended\<close>, and neither deducts a credit
  nor adds to \<open>creditsUsed\<close>. In this run Bob has no credits and session 2 is his
  active session. The handler writes the patch and throws; the mutation answers
  with that error and leaves \<open>db0\<close> as it was, so session 2 is still active with
  no \<open>endedAt\<close>. No credit is deducted and no \<open>creditsUsed\<close> changes.
\<close>

theorem no_credits_session_stays_active:
  "user_by_clerk_id ''clerk_bob'' db0 = Some bob
   \<and> credits bob = 0
   \<and> first_active (user_id bob) db0 = Some session_b
   \<and> incrementSessionCredits_handler 1000 ''clerk_bob'' db0 =
       (db0\<lparr>usageSessions := [session_a, session_b\<lparr>isActive := False, endedAt := Some 1000\<rparr>,
                               session_old]\<rparr>,
        Inl InsufficientCreditsSessionEnded)
   \<and> incrementSessionCredits 1000 ''clerk_bob'' db0 = (db0, Inl InsufficientCreditsSessionEnded)
   \<and> message InsufficientCreditsSessionEnded = ''Insufficient credits - session ended''
   \<and> get_session 2 (fst (incrementSessionCredits 1000 ''clerk_bob'' db0)) = Some session_b
   \<and> isActive session_b = True
   \<and> endedAt session_b = None
   \<and> first_active (user_id bob) (fst (incrementSessionCredits 1000 ''clerk_bob'' db0)) =
       Some session_b"
proof -
  have h1: "user_by_clerk_id ''clerk_bob'' db0 = Some bob"
    by (simp add: user_by_clerk_id_def db0_defs)
  have h2: "first_active (user_id bob) db0 = Some session_b"
    by (simp add: first_active_def db0_defs)
  have h3: "credits bob = 0" by (simp add: bob_def)
  have handler: "incrementSessionCredits_handler 1000 ''clerk_bob'' db0 =
       (db0\<lparr>usageSessions := [session_a, session_b\<lparr>isActive := False, endedAt := Some 1000\<rparr>,
                               session_old]\<rparr>,
        Inl InsufficientCreditsSessionEnded)"
    by (simp add: incrementSessionCredits_handler_def h1 h2 h3 patch_session_def)
       (simp add: db0_defs mark_ended_def)
  have mut: "incrementSessionCredits 1000 ''clerk_bob'' db0 =
               (db0, Inl InsufficientCreditsSessionEnded)"
    by (simp add: incrementSessionCredits_unfold h1 h2 h3)
  have g: "get_session 2 db0 = Some session_b"
    by (simp add: get_session_def db0_defs)
  have b: "isActive session_b = True" "endedAt session_b = None"
    by (simp_all add: session_b_def)
  from h1 h2 h3 handler mut g b show ?thesis by simp
qed

text \<open>
  C9. \<open>endSession\<close> on a session that exists and is no longer active writes nothing:
  the database it leaves is the one it found, and it returns without the final
  details. The error \<open>Session not found\<close> is thrown exactly when no session has the
  given id.
\<close>

theorem endSession_idempotent_on_ended:
  "(get_session i d = Some s \<and> \<not> isActive s \<longrightarrow> endSession now i d = (d, Inr None))
   \<and> ((snd (endSession now i d) = Inl SessionNotFound) = (get_session i d = None))
   \<and> (\<forall>e. snd (endSession now i d) = Inl e \<longrightarrow> e = SessionNotFound)
   \<and> message SessionNotFound = ''Session not found''"
  by (auto simp: endSession_unfold split: option.splits)

theorem endSession_idempotent_on_ended_witness:
  "get_session 3 db0 = Some session_old \<and> \<not> isActive session_old
   \<and> endSession 999 3 db0 = (db0, Inr None)
   \<and> get_session 7 db0 = None \<and> snd (endSession 999 7 db0) = Inl SessionNotFound"
  using endSession_idempotent_on_ended [of 3 db0 session_old 999]
        endSession_idempotent_on_ended [of 7 db0 session_old 999]
  by (simp add: get_session_def db0_def session_a_def session_b_def session_old_def)

section \<open>Properties of the tracking hook\<close>

lemmas run_002_defs = ledger_started_def tracking_002_def heartbeat_002_def
  after_heartbeat_002_def ledger_of_def startSession_unfold user_by_clerk_id_def by_active_def
  insert_session_def fresh_id_def startTracking_002_def tracker_init_def setInterval_def
  incrementSessionCredits_unfold first_active_def patch_user_def patch_session_def
  intervalCallback_002_def stopTracking_002_def clearInterval_def mark_ended_def Let_def

lemmas run_003_defs = tracking_003_def after_heartbeat_003_def startTracking_003_def
  tracker3_init_def setInterval_def fresh_id_def intervalCallback_003_def stopTracking_003_def
  clearInterval_def Let_def

lemma map_of_clearInterval: "map_of (clearInterval h ts) h = None"
  by (induction ts) (auto simp: clearInterval_def)

lemma stopTracking_002_calls:
  "calls (stopTracking_002 seen t) =
     calls t @ (case seen of None \<Rightarrow> [] | Some sid \<Rightarrow> [EndSessionCall sid])"
  by (simp add: stopTracking_002_def Let_def split: option.splits)

lemma stopTracking_003_calls:
  "calls (stopTracking_003 seen t) =
     calls t @ (case seen of None \<Rightarrow> [] | Some sid \<Rightarrow> [EndSessionCall sid])"
  by (simp add: stopTracking_003_def Let_def split: option.splits)

lemma stopTracking_002_stopped:
  "intervalRef (stopTracking_002 seen t) = None"
  "sessionId (stopTracking_002 seen t) = None"
  "isTracking (stopTracking_002 seen t) = False"
  "intervalRef t = Some h \<Longrightarrow> map_of (timers (stopTracking_002 seen t)) h = None"
  by (simp_all add: stopTracking_002_def Let_def map_of_clearInterval split: option.splits)

lemma stopTracking_003_stopped:
  "intervalRef (stopTracking_003 seen t) = None"
  "sessionId (stopTracking_003 seen t) = None"
  "isTracking (stopTracking_003 seen t) = False"
  "intervalRef t = Some h \<Longrightarrow> map_of (timers (stopTracking_003 seen t)) h = None"
  by (simp_all add: stopTracking_003_def Let_def map_of_clearInterval split: option.splits)

text \<open>
  A stop issued from a run of the hook that sees the tracked session, as the user's
  stop is once the hook has rendered again, calls \<open>endSession\<close> once; the stop after
  it sees \<open>null\<close> and calls nothing.
\<close>

lemma user_stop_calls_endSession_once_002:
  "calls (stopTracking_002 (Some sid) t) = calls t @ [EndSessionCall sid]"
  "calls (stopTracking_002 (sessionId (stopTracking_002 (Some sid) t))
            (stopTracking_002 (Some sid) t)) = calls t @ [EndSessionCall sid]"
  by (simp_all add: stopTracking_002_calls stopTracking_002_stopped)

lemma user_stop_calls_endSession_once_003:
  "calls (stopTracking_003 (Some sid) t) = calls t @ [EndSessionCall sid]"
  "calls (stopTracking_003 (sessionId (stopTracking_003 (Some sid) t))
            (stopTracking_003 (Some sid) t)) = calls t @ [EndSessionCall sid]"
  by (simp_all add: stopTracking_003_calls stopTracking_003_stopped)

text \<open>
  The hook of \<open>part_003\<close> stops on every balance of zero or less, since it stops on
  every balance up to 0.05; the hook of \<open>part_002\<close> stops on a balance of exactly
  zero and on no other.
\<close>

lemma quota_stops_003:
  assumes "map_of (timers t) h = Some cb" and "intervalRef t = Some h"
    and "creditsRemaining r \<le> 0"
  shows "intervalRef (intervalCallback_003 h now (Inr r) t) = None"
    and "isTracking (intervalCallback_003 h now (Inr r) t) = False"
    and "map_of (timers (intervalCallback_003 h now (Inr r) t)) h = None"
  using assms
  by (simp_all add: intervalCallback_003_def Let_def stopTracking_003_stopped)

lemma quota_stops_002:
  assumes "map_of (timers t) h = Some cb" and "intervalRef t = Some h"
    and "creditsRemaining r = 0"
  shows "intervalRef (intervalCallback_002 h (Inr r) t) = None"
    and "isTracking (intervalCallback_002 h (Inr r) t) = False"
    and "map_of (timers (intervalCallback_002 h (Inr r) t)) h = None"
  using assms
  by (simp_all add: intervalCallback_002_def Let_def stopTracking_002_stopped)

lemma nonzero_balance_keeps_002:
  assumes "map_of (timers t) h = Some cb" and "creditsRemaining r \<noteq> 0"
  shows "intervalCallback_002 h (Inr r) t =
           t\<lparr>calls := calls t @ [IncrementSessionCreditsCall (cl_clerkId cb)],
             sessionCreditsUsed := r_sessionCreditsUsed r\<rparr>"
  using assms by (simp add: intervalCallback_002_def Let_def)

text \<open>The calls one run of the interval callback makes.\<close>

lemma intervalCallback_002_calls:
  "map_of (timers t) h = Some cb \<Longrightarrow>
   \<exists>rest. calls (intervalCallback_002 h resp t) =
            calls t @ IncrementSessionCreditsCall (cl_clerkId cb) # rest
          \<and> (rest = [] \<or> (\<exists>s. cl_sessionId cb = Some s \<and> rest = [EndSessionCall s]))"
  by (auto simp: intervalCallback_002_def Let_def stopTracking_002_calls
           split: sum.splits option.splits)

lemma intervalCallback_003_calls:
  "map_of (timers t) h = Some cb \<Longrightarrow>
   \<exists>rest. calls (intervalCallback_003 h now resp t) =
            calls t @ UpdateFractionalCreditsCall (cl_clerkId cb) 3 # rest
          \<and> (rest = [] \<or> (\<exists>s. cl_sessionId cb = Some s \<and> rest = [EndSessionCall s]))"
  by (auto simp: intervalCallback_003_def Let_def stopTracking_003_calls
           split: sum.splits option.splits)

text \<open>
  The session a \<open>startTracking\<close> starts gets its id from the ledger during the call,
  so the \<open>sessionId\<close> bound in the run that made the call is another value, and no
  timer set earlier holds it either. Whatever the heartbeat answers, the interval
  callback then never calls \<open>endSession\<close> for that session.
\<close>

lemma interval_stop_skips_new_session_003:
  assumes start: "startTracking_003 seen clerkUser lfrom lto now resp t = (t1, Inr sid)"
    and seen: "seen \<noteq> Some sid"
    and old: "\<forall>(i, cb) \<in> set (timers t). cl_sessionId cb \<noteq> Some sid"
    and log: "EndSessionCall sid \<notin> set (calls t)"
  shows "EndSessionCall sid \<notin> set (calls (intervalCallback_003 h now' resp' t1))"
proof -
  from start obtain cid where
    c1: "calls t1 = calls t @ [StartSessionCall cid lfrom lto]"
    and ts: "timers t1 = timers t @ [(fresh_id (map fst (timers t)),
                                     \<lparr>cl_clerkId = cid, cl_sessionId = seen\<rparr>)]"
    by (auto simp: startTracking_003_def setInterval_def Let_def
             split: option.splits if_splits sum.splits)
  show ?thesis
  proof (cases "map_of (timers t1) h")
    case None
    then show ?thesis using c1 log by (simp add: intervalCallback_003_def)
  next
    case (Some cb)
    then have "(h, cb) \<in> set (timers t1)" by (rule map_of_SomeD)
    with ts old seen have nsid: "cl_sessionId cb \<noteq> Some sid" by auto
    from intervalCallback_003_calls [OF Some, of now' resp'] nsid c1 log
    show ?thesis by auto
  qed
qed

lemma interval_stop_skips_new_session_002:
  assumes start: "startTracking_002 seen clerkUser lfrom lto resp t = (t1, Inr sid)"
    and seen: "seen \<noteq> Some sid"
    and old: "\<forall>(i, cb) \<in> set (timers t). cl_sessionId cb \<noteq> Some sid"
    and log: "EndSessionCall sid \<notin> set (calls t)"
  shows "EndSessionCall sid \<notin> set (calls (intervalCallback_002 h resp' t1))"
proof -
  from start obtain cid where
    c1: "calls t1 = calls t @ [StartSessionCall cid lfrom lto]"
    and ts: "timers t1 = timers t @ [(fresh_id (map fst (timers t)),
                                     \<lparr>cl_clerkId = cid, cl_sessionId = seen\<rparr>)]"
    by (auto simp: startTracking_002_def setInterval_def Let_def
             split: option.splits if_splits sum.splits)
  show ?thesis
  proof (cases "map_of (timers t1) h")
    case None
    then show ?thesis using c1 log by (simp add: intervalCallback_002_def)
  next
    case (Some cb)
    then have "(h, cb) \<in> set (timers t1)" by (rule map_of_SomeD)
    with ts old seen have nsid: "cl_sessionId cb \<noteq> Some sid" by auto
    from intervalCallback_002_calls [OF Some, of resp'] nsid c1 log
    show ?thesis by auto
  qed
qed

lemma startTracking_002_ok:
  "cid \<noteq> [] \<Longrightarrow>
   calls (fst (startTracking_002 seen (Some cid) lfrom lto resp t)) =
     calls t @ [StartSessionCall cid lfrom lto]"
  by (simp add: startTracking_002_def setInterval_def Let_def split: sum.splits)

lemma startTracking_003_ok:
  "cid \<noteq> [] \<Longrightarrow>
   calls (fst (startTracking_003 seen (Some cid) lfrom lto now resp t)) =
     calls t @ [StartSessionCall cid lfrom lto]"
  by (simp add: startTracking_003_def setInterval_def Let_def split: sum.splits)

text \<open>
  A successful \<open>incrementSessionCredits\<close>: what it returns and what it writes. The
  user it charges is the one found by clerk id, the session the first active one of
  that user.
\<close>

lemma incrementSessionCredits_result:
  assumes "incrementSessionCredits now clerk d = (d', Inr r)"
  shows "\<exists>u a. user_by_clerk_id clerk d = Some u \<and> first_active (user_id u) d = Some a
           \<and> 0 < credits u
           \<and> creditsRemaining r = credits u - 1 \<and> r_sessionCreditsUsed r = creditsUsed a + 1
           \<and> users d' =
               map (\<lambda>x. if user_id x = user_id u
                         then x\<lparr>credits := credits u - 1, lastActive := now\<rparr> else x) (users d)
           \<and> usageSessions d' =
               map (\<lambda>s. if session_id s = session_id a
                         then s\<lparr>creditsUsed := creditsUsed a + 1\<rparr> else s) (usageSessions d)"
proof (cases "user_by_clerk_id clerk d")
  case None
  with assms show ?thesis by (simp add: incrementSessionCredits_unfold)
next
  case u: (Some u)
  show ?thesis
  proof (cases "first_active (user_id u) d")
    case None
    with assms u show ?thesis by (simp add: incrementSessionCredits_unfold)
  next
    case a: (Some a)
    from assms u a have pos: "0 < credits u"
      by (auto simp: incrementSessionCredits_unfold split: if_splits)
    with assms u a have
      r: "r = \<lparr>creditsRemaining = credits u - 1, r_sessionCreditsUsed = creditsUsed a + 1\<rparr>"
      and d': "d' = patch_session (session_id a) (\<lambda>s. s\<lparr>creditsUsed := creditsUsed a + 1\<rparr>)
                     (patch_user (user_id u)
                        (\<lambda>x. x\<lparr>credits := credits u - 1, lastActive := now\<rparr>) d)"
      by (auto simp: incrementSessionCredits_unfold Let_def)
    from u a pos r d' show ?thesis
      by (simp add: patch_session_def patch_user_def)
  qed
qed

text \<open>
  C1. The claim asks that every heartbeat whose \<open>creditsRemaining\<close> is zero or less
  stops the loop at once. For the hook of \<open>part_002\<close> this run shows otherwise: a
  user holding half a credit starts a session, the ledger answers the first
  heartbeat with \<open>creditsRemaining = -0.5\<close>, and the hook goes on tracking with its
  interval in place. Only the heartbeat after that, which the ledger refuses, stops
  it.
\<close>

theorem negative_balance_keeps_tracking_002:
  "snd (heartbeat_002 (1 / 2)) = Inr \<lparr>creditsRemaining = - (1 / 2), r_sessionCreditsUsed = 1\<rparr>
   \<and> intervalRef (tracking_002 (1 / 2)) = Some 1
   \<and> intervalRef (after_heartbeat_002 (1 / 2)) = Some 1
   \<and> isTracking (after_heartbeat_002 (1 / 2))
   \<and> sessionId (after_heartbeat_002 (1 / 2)) = Some 1
   \<and> timers (after_heartbeat_002 (1 / 2)) =
       [(1, \<lparr>cl_clerkId = ''clerk_dave'', cl_sessionId = None\<rparr>)]
   \<and> calls (after_heartbeat_002 (1 / 2)) =
       [StartSessionCall ''clerk_dave'' ''en'' ''sv'', IncrementSessionCreditsCall ''clerk_dave'']
   \<and> snd (incrementSessionCredits 121000 ''clerk_dave'' (fst (heartbeat_002 (1 / 2)))) =
       Inl InsufficientCreditsSessionEnded
   \<and> intervalRef (intervalCallback_002 1
        (snd (incrementSessionCredits 121000 ''clerk_dave'' (fst (heartbeat_002 (1 / 2)))))
        (after_heartbeat_002 (1 / 2))) = None"
  by (simp add: run_002_defs)

text \<open>
  C3. The claim asks that a heartbeat reporting exhausted credits stops the session
  and calls \<open>endSession\<close> exactly once for it. In these runs, of both versions of the
  hook, the heartbeat that reports a balance of zero stops the tracking (interval
  cleared, \<open>sessionId\<close> reset) without any \<open>endSession\<close> call, and a later stop
  from the hook as it is then makes none either; in the ledger the session is still
  active.
\<close>

theorem quota_stop_never_calls_endSession:
  "snd (heartbeat_002 1) = Inr \<lparr>creditsRemaining = 0, r_sessionCreditsUsed = 1\<rparr>
   \<and> sessionId (tracking_002 1) = Some 1
   \<and> isTracking (tracking_002 1)
   \<and> intervalRef (after_heartbeat_002 1) = None
   \<and> timers (after_heartbeat_002 1) = []
   \<and> isTracking (after_heartbeat_002 1) = False
   \<and> sessionId (after_heartbeat_002 1) = None
   \<and> calls (after_heartbeat_002 1) =
       [StartSessionCall ''clerk_dave'' ''en'' ''sv'', IncrementSessionCreditsCall ''clerk_dave'']
   \<and> calls (stopTracking_002 (sessionId (after_heartbeat_002 1)) (after_heartbeat_002 1)) =
       calls (after_heartbeat_002 1)
   \<and> count_list (calls (after_heartbeat_002 1)) (EndSessionCall 1) = 0
   \<and> map session_id (usageSessions (fst (heartbeat_002 1))) = [1]
   \<and> map isActive (usageSessions (fst (heartbeat_002 1))) = [True]
   \<and> sessionId (tracking_003 1) = Some 1
   \<and> isTracking (tracking_003 1)
   \<and> intervalRef (after_heartbeat_003 1 4000 0) = None
   \<and> timers (after_heartbeat_003 1 4000 0) = []
   \<and> isTracking (after_heartbeat_003 1 4000 0) = False
   \<and> sessionId (after_heartbeat_003 1 4000 0) = None
   \<and> calls (after_heartbeat_003 1 4000 0) =
       [StartSessionCall ''clerk_dave'' ''en'' ''sv'',
        UpdateFractionalCreditsCall ''clerk_dave'' 3]
   \<and> calls (stopTracking_003 (sessionId (after_heartbeat_003 1 4000 0))
              (after_heartbeat_003 1 4000 0)) =
       calls (after_heartbeat_003 1 4000 0)
   \<and> count_list (calls (after_heartbeat_003 1 4000 0)) (EndSessionCall 1) = 0"
  by (simp add: run_002_defs run_003_defs)

text \<open>
  C4, as amended. The hooks call the ledger as follows. \<open>startTracking\<close> calls
  \<open>startSession\<close> with the clerk id of the user and the two languages, and keeps
  and returns the session id the ledger answers with. Each
  heartbeat names the user by clerk id and nothing else: \<open>incrementSessionCredits\<close>
  with the clerk id in \<open>part_002\<close>, \<open>updateFractionalCredits\<close> with the clerk id and
  the constant 3 in \<open>part_003\<close>; it is followed by at most one \<open>endSession\<close> call.
  \<open>stopTracking\<close> calls \<open>endSession\<close> with the session id it sees. A successful
  \<open>incrementSessionCredits\<close> takes one credit from the user found by clerk id,
  adds one to \<open>creditsUsed\<close> of that user's first active session, changes no other
  document, and returns the balance that remains, one less than the user's credits,
  and the new \<open>creditsUsed\<close> of that session.
\<close>

theorem ledger_interface_as_called:
  "(cid \<noteq> [] \<longrightarrow>
      calls (fst (startTracking_002 seen (Some cid) lfrom lto resp2 t0)) =
        calls t0 @ [StartSessionCall cid lfrom lto]
      \<and> calls (fst (startTracking_003 seen (Some cid) lfrom lto start resp3 t0')) =
        calls t0' @ [StartSessionCall cid lfrom lto]
      \<and> snd (startTracking_002 seen (Some cid) lfrom lto (Inr newId :: error + nat) t0) =
        Inr newId
      \<and> sessionId (fst (startTracking_002 seen (Some cid) lfrom lto
                          (Inr newId :: error + nat) t0)) = Some newId
      \<and> snd (startTracking_003 seen (Some cid) lfrom lto start (Inr newId :: error + nat) t0') =
        Inr newId
      \<and> sessionId (fst (startTracking_003 seen (Some cid) lfrom lto start
                          (Inr newId :: error + nat) t0')) = Some newId)
   \<and> (map_of (timers t) h = Some cb \<longrightarrow>
        (\<exists>rest. calls (intervalCallback_002 h hb2 t) =
                  calls t @ IncrementSessionCreditsCall (cl_clerkId cb) # rest
               \<and> (rest = [] \<or> (\<exists>s. cl_sessionId cb = Some s \<and> rest = [EndSessionCall s]))))
   \<and> (map_of (timers t') h' = Some cb' \<longrightarrow>
        (\<exists>rest. calls (intervalCallback_003 h' tick hb3 t') =
                  calls t' @ UpdateFractionalCreditsCall (cl_clerkId cb') 3 # rest
               \<and> (rest = [] \<or> (\<exists>s. cl_sessionId cb' = Some s \<and> rest = [EndSessionCall s]))))
   \<and> calls (stopTracking_002 (Some sid) t) = calls t @ [EndSessionCall sid]
   \<and> calls (stopTracking_003 (Some sid) t') = calls t' @ [EndSessionCall sid]
   \<and> (incrementSessionCredits now clerk d = (d', Inr r) \<longrightarrow>
        (\<exists>u a. user_by_clerk_id clerk d = Some u \<and> first_active (user_id u) d = Some a
           \<and> creditsRemaining r = credits u - 1 \<and> r_sessionCreditsUsed r = creditsUsed a + 1
           \<and> users d' =
               map (\<lambda>x. if user_id x = user_id u
                         then x\<lparr>credits := credits u - 1, lastActive := now\<rparr> else x) (users d)
           \<and> usageSessions d' =
               map (\<lambda>s. if session_id s = session_id a
                         then s\<lparr>creditsUsed := creditsUsed a + 1\<rparr> else s) (usageSessions d)))"
proof -
  have start: "cid \<noteq> [] \<longrightarrow>
      calls (fst (startTracking_002 seen (Some cid) lfrom lto resp2 t0)) =
        calls t0 @ [StartSessionCall cid lfrom lto]
      \<and> calls (fst (startTracking_003 seen (Some cid) lfrom lto start resp3 t0')) =
        calls t0' @ [StartSessionCall cid lfrom lto]
      \<and> snd (startTracking_002 seen (Some cid) lfrom lto (Inr newId :: error + nat) t0) =
        Inr newId
      \<and> sessionId (fst (startTracking_002 seen (Some cid) lfrom lto
                          (Inr newId :: error + nat) t0)) = Some newId
      \<and> snd (startTracking_003 seen (Some cid) lfrom lto start (Inr newId :: error + nat) t0') =
        Inr newId
      \<and> sessionId (fst (startTracking_003 seen (Some cid) lfrom lto start
                          (Inr newId :: error + nat) t0')) = Some newId"
    using startTracking_002_ok [of cid seen lfrom lto resp2 t0]
          startTracking_003_ok [of cid seen lfrom lto start resp3 t0']
    by (simp add: startTracking_002_def startTracking_003_def setInterval_def Let_def)
  have hb2: "map_of (timers t) h = Some cb \<longrightarrow>
        (\<exists>rest. calls (intervalCallback_002 h hb2 t) =
                  calls t @ IncrementSessionCreditsCall (cl_clerkId cb) # rest
               \<and> (rest = [] \<or> (\<exists>s. cl_sessionId cb = Some s \<and> rest = [EndSessionCall s])))"
    using intervalCallback_002_calls [of t h cb hb2] by blast
  have hb3: "map_of (timers t') h' = Some cb' \<longrightarrow>
        (\<exists>rest. calls (intervalCallback_003 h' tick hb3 t') =
                  calls t' @ UpdateFractionalCreditsCall (cl_clerkId cb') 3 # rest
               \<and> (rest = [] \<or> (\<exists>s. cl_sessionId cb' = Some s \<and> rest = [EndSessionCall s])))"
    using intervalCallback_003_calls [of t' h' cb' tick hb3] by blast
  have stop: "calls (stopTracking_002 (Some sid) t) = calls t @ [EndSessionCall sid]"
    "calls (stopTracking_003 (Some sid) t') = calls t' @ [EndSessionCall sid]"
    by (simp_all add: stopTracking_002_calls stopTracking_003_calls)
  have ledger: "incrementSessionCredits now clerk d = (d', Inr r) \<longrightarrow>
        (\<exists>u a. user_by_clerk_id clerk d = Some u \<and> first_active (user_id u) d = Some a
           \<and> creditsRemaining r = credits u - 1 \<and> r_sessionCreditsUsed r = creditsUsed a + 1
           \<and> users d' =
               map (\<lambda>x. if user_id x = user_id u
                         then x\<lparr>credits := credits u - 1, lastActive := now\<rparr> else x) (users d)
           \<and> usageSessions d' =
               map (\<lambda>s. if session_id s = session_id a
                         then s\<lparr>creditsUsed := creditsUsed a + 1\<rparr> else s) (usageSessions d))"
    using incrementSessionCredits_result [of now clerk d d' r] by blast
  from start hb2 hb3 stop ledger show ?thesis by (intro conjI)
qed

theorem ledger_interface_as_called_witness:
  "''clerk_dave'' \<noteq> []
   \<and> calls (tracking_002 5) = [StartSessionCall ''clerk_dave'' ''en'' ''sv'']
   \<and> calls (tracking_003 4) = [StartSessionCall ''clerk_dave'' ''en'' ''sv'']
   \<and> map_of (timers (tracking_002 5)) 1 = Some \<lparr>cl_clerkId = ''clerk_dave'', cl_sessionId = None\<rparr>
   \<and> calls (after_heartbeat_002 5) =
       calls (tracking_002 5) @ [IncrementSessionCreditsCall ''clerk_dave'']
   \<and> map_of (timers (tracking_003 4)) 1 = Some \<lparr>cl_clerkId = ''clerk_dave'', cl_sessionId = None\<rparr>
   \<and> calls (after_heartbeat_003 4 4000 1) =
       calls (tracking_003 4) @ [UpdateFractionalCreditsCall ''clerk_dave'' 3]
   \<and> calls (stopTracking_002 (Some 1) (tracking_002 5)) =
       calls (tracking_002 5) @ [EndSessionCall 1]
   \<and> calls (stopTracking_003 (Some 1) (tracking_003 4)) =
       calls (tracking_003 4) @ [EndSessionCall 1]
   \<and> heartbeat_002 5 =
       (fst (heartbeat_002 5), Inr \<lparr>creditsRemaining = 4, r_sessionCreditsUsed = 1\<rparr>)
   \<and> user_by_clerk_id ''clerk_dave'' (fst (ledger_started 5)) =
       Some \<lparr>user_id = 1, clerkId = ''clerk_dave'', credits = 5, lastActive = 0\<rparr>
   \<and> map creditsUsed (usageSessions (fst (ledger_started 5))) = [0]
   \<and> users (fst (heartbeat_002 5)) =
       [\<lparr>user_id = 1, clerkId = ''clerk_dave'', credits = 4, lastActive = 61000\<rparr>]
   \<and> map creditsUsed (usageSessions (fst (heartbeat_002 5))) = [1]"
proof -
  have hb: "incrementSessionCredits 61000 ''clerk_dave'' (fst (ledger_started 5)) =
              (fst (heartbeat_002 5), Inr \<lparr>creditsRemaining = 4, r_sessionCreditsUsed = 1\<rparr>)"
    by (simp add: run_002_defs)
  have t2: "map_of (timers (tracking_002 5)) 1 =
              Some \<lparr>cl_clerkId = ''clerk_dave'', cl_sessionId = None\<rparr>"
    by (simp add: run_002_defs)
  have t3: "map_of (timers (tracking_003 4)) 1 =
              Some \<lparr>cl_clerkId = ''clerk_dave'', cl_sessionId = None\<rparr>"
    by (simp add: run_003_defs)
  have c2: "calls (tracking_002 5) = [StartSessionCall ''clerk_dave'' ''en'' ''sv'']"
    by (simp add: run_002_defs)
  have c3: "calls (tracking_003 4) = [StartSessionCall ''clerk_dave'' ''en'' ''sv'']"
    by (simp add: run_003_defs)
  have a2: "calls (after_heartbeat_002 5) =
              calls (tracking_002 5) @ [IncrementSessionCreditsCall ''clerk_dave'']"
    by (simp add: run_002_defs)
  have a3: "calls (after_heartbeat_003 4 4000 1) =
              calls (tracking_003 4) @ [UpdateFractionalCreditsCall ''clerk_dave'' 3]"
    by (simp add: run_003_defs)
  have u: "user_by_clerk_id ''clerk_dave'' (fst (ledger_started 5)) =
             Some \<lparr>user_id = 1, clerkId = ''clerk_dave'', credits = 5, lastActive = 0\<rparr>"
    by (simp add: run_002_defs)
  from ledger_interface_as_called
         [where cid = "''clerk_dave''" and seen = None and lfrom = "''en''" and lto = "''sv''"
            and ?resp2.0 = "snd (ledger_started 5)" and ?t0.0 = tracker_init and start = 1000
            and ?resp3.0 = "Inr 4 :: error + usageSessions_id" and t0' = tracker3_init
            and t = "tracking_002 5" and h = 1
            and cb = "\<lparr>cl_clerkId = ''clerk_dave'', cl_sessionId = None\<rparr>"
            and ?hb2.0 = "snd (heartbeat_002 5)"
            and t' = "tracking_003 4" and h' = 1
            and cb' = "\<lparr>cl_clerkId = ''clerk_dave'', cl_sessionId = None\<rparr>"
            and tick = 4000
            and ?hb3.0 = "Inr \<lparr>creditsRemaining = 1, r_sessionCreditsUsed = 1 / 10,
                                r_secondsUsed = 6\<rparr> :: error + fractional_result"
            and newId = 4 and sid = 1 and now = 61000 and clerk = "''clerk_dave''"
            and d = "fst (ledger_started 5)" and d' = "fst (heartbeat_002 5)"
            and r = "\<lparr>creditsRemaining = 4, r_sessionCreditsUsed = 1\<rparr>"]
  have stops: "calls (stopTracking_002 (Some 1) (tracking_002 5)) =
                 calls (tracking_002 5) @ [EndSessionCall 1]
               \<and> calls (stopTracking_003 (Some 1) (tracking_003 4)) =
                 calls (tracking_003 4) @ [EndSessionCall 1]"
    using hb t2 t3 by blast
  have before: "map creditsUsed (usageSessions (fst (ledger_started 5))) = [0]"
    by (simp add: run_002_defs)
  have after: "users (fst (heartbeat_002 5)) =
       [\<lparr>user_id = 1, clerkId = ''clerk_dave'', credits = 4, lastActive = 61000\<rparr>]"
    "map creditsUsed (usageSessions (fst (heartbeat_002 5))) = [1]"
    by (simp_all add: run_002_defs)
  from stops hb t2 t3 c2 c3 a2 a3 u before after show ?thesis
    by (simp add: heartbeat_002_def)
qed

text \<open>
  Against C4 as stated: two sessions with different ids, one three seconds and one
  sixty seconds after its start, send the same heartbeat call, which holds the
  clerk id and the constant 3; the heartbeat of \<open>part_002\<close> holds the clerk id
  alone.
\<close>

theorem heartbeat_call_counterexample:
  "sessionId (tracking_003 4) = Some 4
   \<and> sessionId (tracking_003 9) = Some 9
   \<and> startTimeRef (tracking_003 4) = Some 1000
   \<and> startTimeRef (tracking_003 9) = Some 1000
   \<and> calls (after_heartbeat_003 4 4000 1) =
       [StartSessionCall ''clerk_dave'' ''en'' ''sv'',
        UpdateFractionalCreditsCall ''clerk_dave'' 3]
   \<and> calls (after_heartbeat_003 9 61000 1) =
       [StartSessionCall ''clerk_dave'' ''en'' ''sv'',
        UpdateFractionalCreditsCall ''clerk_dave'' 3]
   \<and> sessionId (tracking_002 5) = Some 1
   \<and> calls (after_heartbeat_002 5) =
       [StartSessionCall ''clerk_dave'' ''en'' ''sv'',
        IncrementSessionCreditsCall ''clerk_dave'']"
  by (simp add: run_002_defs run_003_defs)

section \<open>Properties of the audio visualizer\<close>

lemmas vis_defs = monitoring_def granted_env_def startMonitoring_def visualizer_init_def
  NUM_DOTS_def fresh_id_def Let_def

text \<open>
  C6. The indicator \<open>isSpeaking\<close> is true exactly when the level is above -40 dB.
  It alone chooses what \<open>animateDots\<close> does: above the threshold every dot gets the
  wave animation computed from the level, otherwise every dot gets the idle
  animation, and the two are never the same animation.
\<close>

theorem speech_indicator_threshold:
  "isSpeaking level = (- 40 < level)
   \<and> SPEECH_THRESHOLD = - 40
   \<and> dotAnimations (animateDots now level s) =
       (if - 40 < level
        then map (speakingAnimation level) [0..<length (dotAnimations s)]
        else map (idleAnimation now) [0..<length (dotAnimations s)])
   \<and> speakingAnimation level i \<noteq> idleAnimation now' j"
  by (simp add: isSpeaking_def SPEECH_THRESHOLD_def animateDots_def speakingAnimation_def
        idleAnimation_def Let_def)

text \<open>
  C7. \<open>stopMonitoring\<close> never throws, in any state, whatever recording its run sees
  and whether or not unloading succeeds. Once a stop has left no recording, the
  interval is cleared too, and every further stop returns the state it was given.
\<close>

theorem stopMonitoring_idempotent:
  "(\<exists>s1. stopMonitoring seen ok s = Inr s1)
   \<and> (\<forall>s1. stopMonitoring seen ok s = Inr s1 \<and> recording s1 = None \<longrightarrow>
          monitorRef s1 = None \<and> stopMonitoring seen' ok' s1 = Inr s1)"
  by (auto simp: stopMonitoring_def stopAndUnloadAsync_def Let_def
           split: option.splits sum.splits if_splits)

theorem stopMonitoring_idempotent_witness:
  "stopMonitoring (recording monitoring) True monitoring =
      Inr \<lparr>recording = None, monitorRef = None, monitors = [],
           dotAnimations = replicate 13 (Timing 1 300)\<rparr>
   \<and> stopMonitoring None True
        \<lparr>recording = None, monitorRef = None, monitors = [],
         dotAnimations = replicate 13 (Timing 1 300)\<rparr> =
      Inr \<lparr>recording = None, monitorRef = None, monitors = [],
           dotAnimations = replicate 13 (Timing 1 300)\<rparr>"
proof -
  have first: "stopMonitoring (recording monitoring) True monitoring =
      Inr \<lparr>recording = None, monitorRef = None, monitors = [],
           dotAnimations = replicate 13 (Timing 1 300)\<rparr>"
    by (simp add: vis_defs stopMonitoring_def stopAndUnloadAsync_def)
  with stopMonitoring_idempotent [of "recording monitoring" True monitoring None True]
  show ?thesis by simp
qed

end
